theory Spec2Isabelle
  imports Main
begin

section \<open>The platform the image module runs on\<close>

text \<open>
  \<^verbatim>\<open>agar/image.py\<close> is a layer over the App Engine SDK: the datastore, the
  Blobstore, memcache, the images service, urlfetch and logging. None of those is code of
  the repository. Their state is the record \<open>world\<close>, which every operation of the
  module takes and returns; what they answer (formats, fetched pages, serving URLs, key
  renderings) is the record \<open>platform\<close>, a parameter of every operation, so a theorem
  about \<open>create\<close> or \<open>get_serving_url\<close> holds for every behaviour of the services.
  A Python exception is a value of \<open>exn\<close>; an operation that can raise returns
  \<open>exn + 'a\<close> together with the world it leaves behind.
\<close>

type_synonym bytes = string
type_synonym blob_key = string

datatype model_class = ImageCls | NdbImageCls

datatype ekey = KeyId nat | KeyName string

datatype exn =
    DbError string
  | BadImageError string
  | NotImageError string
  | AttributeError string
  | ServiceError string

fun exn_message :: "exn \<Rightarrow> string" where
  "exn_message (DbError m) = m"
| "exn_message (BadImageError m) = m"
| "exn_message (NotImageError m) = m"
| "exn_message (AttributeError m) = m"
| "exn_message (ServiceError m) = m"

datatype image_format = PNG | JPEG | GIF | OtherFormat nat

record image_info =
  info_format :: image_format
  info_width :: nat
  info_height :: nat

text \<open>
  An entity of either model class, as far as the module reads it: its class, its key,
  the blob reference (\<open>blob_info\<close> of \<open>Image\<close>, \<open>blob_key\<close> of \<open>NdbImage\<close>) and
  \<open>source_url\<close>. Every entity of the model has a key: the module builds entities only
  through \<open>create_new_entity\<close>, which puts them.
\<close>

record entity =
  kind :: model_class
  model_key :: ekey
  blob_key :: "blob_key option"
  source_url :: "string option"

text \<open>
  What \<open>urlfetch.fetch\<close> returns: \<open>content\<close> is the body, a string, empty when
  the server sent none (it is never \<open>None\<close>); \<open>content_type\<close> is
  \<open>headers.get('Content-Type', None)\<close>.
\<close>

record response =
  content :: bytes
  content_type :: "string option"

datatype event =
    EvPut ekey
  | EvDelete ekey
  | EvBlobWrite blob_key
  | EvBlobDelete blob_key
  | EvFetch string
  | EvServing blob_key "int option" bool "bool option"
  | EvLog string string

record world =
  datastore :: "ekey \<rightharpoonup> entity"
  next_id :: nat
  blobs :: "blob_key \<rightharpoonup> bytes"
  blob_count :: nat
  memcache :: "(string \<times> string) \<rightharpoonup> (string \<times> nat option)"
  now :: nat
  svc_calls :: nat
  trace :: "event list"

text \<open>
  The answers of the services. \<open>images_get_serving_url\<close> takes the number of calls
  made before, so successive calls may answer differently; it raises (\<open>Inl\<close>) or
  returns a URL or \<open>None\<close>. \<open>image_data_info\<close> is \<open>images.Image(image_data=d)\<close>
  followed by a read of \<open>format\<close>, \<open>width\<close> or \<open>height\<close>; \<open>image_blob_info\<close> is
  the same for \<open>images.Image(blob_key=k)\<close>. \<open>files_assertion_error\<close> says that the
  files API raises \<open>AssertionError\<close> (as it does under unit tests) and
  \<open>testbed_instance\<close> that the module global \<open>TESTBED_INSTANCE\<close> is set.
\<close>

record platform =
  key_str :: "model_class \<Rightarrow> ekey \<Rightarrow> string"
  key_urlsafe :: "ekey \<Rightarrow> string"
  guess_type :: "string \<Rightarrow> string option"
  urlsplit_path :: "string \<Rightarrow> string"
  urlfetch_fetch :: "string \<Rightarrow> exn + response"
  image_data_info :: "bytes \<Rightarrow> exn + image_info"
  image_blob_info :: "blob_key \<Rightarrow> bytes option \<Rightarrow> exn + image_info"
  images_crop :: "bytes \<Rightarrow> image_format \<Rightarrow> exn + bytes"
  images_get_serving_url ::
    "nat \<Rightarrow> blob_key \<Rightarrow> int option \<Rightarrow> bool \<Rightarrow> bool option \<Rightarrow> exn + string option"
  files_new_blob_key :: "nat \<Rightarrow> blob_key"
  files_assertion_error :: bool
  testbed_instance :: bool

record config =
  SERVING_URL_TIMEOUT :: nat
  SERVING_URL_LOOKUP_TRIES :: int
  VALID_MIME_TYPES :: "string list"

definition default_config :: config where
  "default_config =
     \<lparr>SERVING_URL_TIMEOUT = 60 * 60,
      SERVING_URL_LOOKUP_TRIES = 3,
      VALID_MIME_TYPES = [''image/jpeg'', ''image/png'', ''image/gif'']\<rparr>"

definition IMAGE_HEADER_SIZE :: nat where
  "IMAGE_HEADER_SIZE = 50000"

subsection \<open>Service calls\<close>

definition logging :: "string \<Rightarrow> string \<Rightarrow> world \<Rightarrow> world" where
  "logging level msg w = w\<lparr>trace := trace w @ [EvLog level msg]\<rparr>"

text \<open>
  memcache: an entry carries its expiry time; \<open>time = 0\<close> in \<open>memcache.set\<close> means
  no expiry, any other value is seconds from now. \<open>memcache.get\<close> answers \<open>None\<close>
  for a missing or expired entry. Neither call raises.
\<close>

definition entry_live :: "nat \<Rightarrow> string \<times> nat option \<Rightarrow> bool" where
  "entry_live t en = (case snd en of None \<Rightarrow> True | Some ex \<Rightarrow> t < ex)"

definition memcache_get :: "string \<Rightarrow> string \<Rightarrow> world \<Rightarrow> string option" where
  "memcache_get key namespace w =
     (case memcache w (namespace, key) of
        None \<Rightarrow> None
      | Some en \<Rightarrow> if entry_live (now w) en then Some (fst en) else None)"

definition memcache_set :: "string \<Rightarrow> string \<Rightarrow> nat \<Rightarrow> string \<Rightarrow> world \<Rightarrow> world" where
  "memcache_set key v time namespace w =
     w\<lparr>memcache := (memcache w)((namespace, key) \<mapsto>
          (v, if time = 0 then None else Some (now w + time)))\<rparr>"

definition put :: "entity \<Rightarrow> world \<Rightarrow> world" where
  "put e w =
     w\<lparr>datastore := (datastore w)(model_key e \<mapsto> e),
       trace := trace w @ [EvPut (model_key e)]\<rparr>"

definition datastore_delete :: "ekey \<Rightarrow> world \<Rightarrow> world" where
  "datastore_delete k w =
     w\<lparr>datastore := (datastore w)(k := None),
       trace := trace w @ [EvDelete k]\<rparr>"

definition blobstore_delete :: "blob_key \<Rightarrow> world \<Rightarrow> world" where
  "blobstore_delete b w =
     w\<lparr>blobs := (blobs w)(b := None),
       trace := trace w @ [EvBlobDelete b]\<rparr>"

text \<open>
  \<open>blobstore.fetch_data(blob, start_index, end_index)\<close> returns the bytes at the
  indices \<open>start_index\<close> to \<open>end_index\<close>, both included, and fewer when the blob
  ends before \<open>end_index\<close>.
\<close>

definition fetch_data :: "blob_key \<Rightarrow> nat \<Rightarrow> nat \<Rightarrow> world \<Rightarrow> exn + bytes" where
  "fetch_data b start_index end_index w =
     (case blobs w b of
        None \<Rightarrow> Inl (ServiceError ''BlobNotFoundError'')
      | Some d \<Rightarrow> Inr (take (end_index - start_index + 1) (drop start_index d)))"

definition call_serving_url ::
  "platform \<Rightarrow> blob_key \<Rightarrow> int option \<Rightarrow> bool \<Rightarrow> bool option \<Rightarrow> world
     \<Rightarrow> (exn + string option) \<times> world" where
  "call_serving_url P b sz crop secure_url w =
     (images_get_serving_url P (svc_calls w) b sz crop secure_url,
      w\<lparr>svc_calls := svc_calls w + 1,
        trace := trace w @ [EvServing b sz crop secure_url]\<rparr>)"

section \<open>Python built-ins the module uses\<close>

text \<open>
  \<open>a or b\<close> on optional strings: \<open>None\<close> and the empty string are false.
  \<open>encode('ascii', 'ignore')\<close> on text drops every character outside ASCII; text
  is a list of code points, here within the range of \<open>char\<close>.
\<close>

definition py_or :: "string option \<Rightarrow> string option \<Rightarrow> string option" where
  "py_or a b = (if a = None \<or> a = Some [] then b else a)"

definition encode_ascii_ignore :: "string \<Rightarrow> string" where
  "encode_ascii_ignore s = filter (\<lambda>c. (of_char c :: nat) < 128) s"

definition digit_char :: "nat \<Rightarrow> char" where
  "digit_char d = char_of (48 + d)"

function str_nat :: "nat \<Rightarrow> string" where
  "str_nat n = (if n < 10 then [digit_char n] else str_nat (n div 10) @ [digit_char (n mod 10)])"
  by pat_completeness auto
termination
  by (relation "measure id") auto

declare str_nat.simps [simp del]

definition str_int :: "int \<Rightarrow> string" where
  "str_int i = (if i < 0 then CHR ''-'' # str_nat (nat (- i)) else str_nat (nat i))"

definition str_size :: "int option \<Rightarrow> string" where
  "str_size sz = (case sz of None \<Rightarrow> ''None'' | Some i \<Rightarrow> str_int i)"

definition str_bool :: "bool \<Rightarrow> string" where
  "str_bool b = (if b then ''True'' else ''False'')"

text \<open>\<open>path[path.rfind('/')+1:]\<close>: what follows the last slash, the whole path when it has none.\<close>

definition after_last_slash :: "string \<Rightarrow> string" where
  "after_last_slash path = rev (takeWhile (\<lambda>c. c \<noteq> CHR ''/'') (rev path))"

section \<open>BaseImage\<close>

subsection \<open>Metadata properties\<close>

text \<open>
  \<open>format\<close>, \<open>width\<close> and \<open>height\<close> share one body: \<open>None\<close> without a blob;
  otherwise the read on \<open>images.Image(blob_key=...)\<close>, and on \<open>NotImageError\<close>
  (no other exception) the read on the data fetched by
  \<open>blobstore.fetch_data(self.blob_key, 0, IMAGE_HEADER_SIZE)\<close>.
\<close>

definition header_data :: "blob_key \<Rightarrow> world \<Rightarrow> exn + bytes" where
  "header_data b w = fetch_data b 0 IMAGE_HEADER_SIZE w"

definition image_property ::
  "(image_info \<Rightarrow> 'a) \<Rightarrow> platform \<Rightarrow> entity \<Rightarrow> world \<Rightarrow> exn + 'a option" where
  "image_property field P self w =
     (case blob_key self of
        None \<Rightarrow> Inr None
      | Some b \<Rightarrow>
          (case image_blob_info P b (blobs w b) of
             Inr i \<Rightarrow> Inr (Some (field i))
           | Inl (NotImageError m) \<Rightarrow>
               (case header_data b w of
                  Inl e \<Rightarrow> Inl e
                | Inr data \<Rightarrow>
                    (case image_data_info P data of
                       Inl e \<Rightarrow> Inl e
                     | Inr i \<Rightarrow> Inr (Some (field i))))
           | Inl e \<Rightarrow> Inl e))"

definition format :: "platform \<Rightarrow> entity \<Rightarrow> world \<Rightarrow> exn + image_format option" where
  "format = image_property info_format"

definition width :: "platform \<Rightarrow> entity \<Rightarrow> world \<Rightarrow> exn + nat option" where
  "width = image_property info_width"

definition height :: "platform \<Rightarrow> entity \<Rightarrow> world \<Rightarrow> exn + nat option" where
  "height = image_property info_height"

text \<open>\<open>image_data\<close>: \<open>BlobReader(self.blob_key).read()\<close>, which raises when the blob is gone.\<close>

definition image_data :: "entity \<Rightarrow> world \<Rightarrow> exn + bytes option" where
  "image_data self w =
     (case blob_key self of
        None \<Rightarrow> Inr None
      | Some b \<Rightarrow>
          (case blobs w b of
             None \<Rightarrow> Inl (ServiceError ''BlobNotFoundError'')
           | Some d \<Rightarrow> Inr (Some d)))"

subsection \<open>get_serving_url\<close>

definition cache_namespace :: string where
  "cache_namespace = ''agar-image-serving-url''"

definition cache_key :: "platform \<Rightarrow> entity \<Rightarrow> int option \<Rightarrow> bool \<Rightarrow> string" where
  "cache_key P self sz crop =
     key_str P (kind self) (model_key self) @ ''-'' @ str_size sz @ ''-'' @ str_bool crop"

text \<open>
  The \<open>while\<close> loop of \<open>get_serving_url\<close>, from a value of \<open>tries\<close> and of
  \<open>serving_url\<close>. \<open>except Exception\<close> catches what the service raises; the error
  is logged on the last try only.
\<close>

definition lookup_error_message :: "exn \<Rightarrow> string" where
  "lookup_error_message e = ''Unable to get image serving URL: '' @ exn_message e"

function lookup_loop ::
  "config \<Rightarrow> platform \<Rightarrow> blob_key \<Rightarrow> int option \<Rightarrow> bool \<Rightarrow> bool option \<Rightarrow>
     int \<Rightarrow> string option \<Rightarrow> world \<Rightarrow> string option \<times> world" where
  "lookup_loop C P b sz crop secure_url tries serving_url w =
     (if tries < SERVING_URL_LOOKUP_TRIES C then
        (let tries' = tries + 1;
             r = fst (call_serving_url P b sz crop secure_url w);
             w1 = snd (call_serving_url P b sz crop secure_url w)
         in case r of
              Inr u \<Rightarrow>
                (if u \<noteq> None then (u, w1)
                 else lookup_loop C P b sz crop secure_url tries' u w1)
            | Inl e \<Rightarrow>
                (if tries' \<ge> SERVING_URL_LOOKUP_TRIES C
                 then lookup_loop C P b sz crop secure_url tries' serving_url
                        (logging ''error'' (lookup_error_message e) w1)
                 else lookup_loop C P b sz crop secure_url tries' serving_url w1))
      else (serving_url, w))"
  by pat_completeness auto
termination
  by (relation "measure (\<lambda>(C, P, b, sz, crop, secure_url, tries, serving_url, w).
        nat (SERVING_URL_LOOKUP_TRIES C - tries))") auto

declare lookup_loop.simps [simp del]

definition get_serving_url ::
  "config \<Rightarrow> platform \<Rightarrow> entity \<Rightarrow> int option \<Rightarrow> bool \<Rightarrow> bool option \<Rightarrow> world
     \<Rightarrow> string option \<times> world" where
  "get_serving_url C P self sz crop secure_url w =
     (case blob_key self of
        None \<Rightarrow> (None, w)
      | Some b \<Rightarrow>
          (let key = cache_key P self sz crop in
           case memcache_get key cache_namespace w of
             Some u \<Rightarrow> (Some u, w)
           | None \<Rightarrow>
               (let (serving_url, w1) = lookup_loop C P b sz crop secure_url 0 None w
                in case serving_url of
                     Some u \<Rightarrow>
                       (Some u, memcache_set key u (SERVING_URL_TIMEOUT C) cache_namespace w1)
                   | None \<Rightarrow> (None, w1))))"

section \<open>Image and NdbImage\<close>

text \<open>
  \<open>model_key_string\<close>: \<open>str(self.key())\<close> for \<open>Image\<close>, \<open>self.key.urlsafe()\<close>
  for \<open>NdbImage\<close>.
\<close>

definition model_key_string :: "platform \<Rightarrow> entity \<Rightarrow> string" where
  "model_key_string P self =
     (case kind self of
        ImageCls \<Rightarrow> key_str P ImageCls (model_key self)
      | NdbImageCls \<Rightarrow> key_urlsafe P (model_key self))"

text \<open>
  \<open>NdbImage.blob_info\<close> is \<open>BlobInfo.get(self.blob_key)\<close>: \<open>None\<close> without a
  reference, and \<open>None\<close> when the Blobstore has no such blob.
\<close>

definition get_blob_info :: "entity \<Rightarrow> world \<Rightarrow> blob_key option" where
  "get_blob_info self w =
     (case blob_key self of
        None \<Rightarrow> None
      | Some b \<Rightarrow> (if blobs w b = None then None else Some b))"

text \<open>
  \<open>Image.delete\<close> reads \<open>blob_info\<close> of the object it is called on, deletes that
  blob, then the record (\<open>super().delete()\<close>).
\<close>

definition Image_delete :: "entity \<Rightarrow> world \<Rightarrow> (exn + unit) \<times> world" where
  "Image_delete self w =
     (let w1 = (case blob_key self of
                  Some b \<Rightarrow> blobstore_delete b w
                | None \<Rightarrow> w)
      in (Inr (), datastore_delete (model_key self) w1))"

text \<open>
  \<open>NdbImage.delete\<close> is \<open>self.key.delete()\<close>; NDB runs the class's
  \<open>_pre_delete_hook\<close> on the key before it deletes the record. The hook reads the
  stored entity (\<open>key.get()\<close>), and \<open>image.blob_info\<close> on a key that has no record is
  an attribute read on \<open>None\<close>.
\<close>

definition pre_delete_hook :: "ekey \<Rightarrow> world \<Rightarrow> (exn + unit) \<times> world" where
  "pre_delete_hook key w =
     (case datastore w key of
        None \<Rightarrow> (Inl (AttributeError ''NoneType object has no attribute blob_info''), w)
      | Some img \<Rightarrow>
          (case get_blob_info img w of
             Some b \<Rightarrow> (Inr (), blobstore_delete b w)
           | None \<Rightarrow> (Inr (), w)))"

definition NdbImage_delete :: "entity \<Rightarrow> world \<Rightarrow> (exn + unit) \<times> world" where
  "NdbImage_delete self w =
     (case pre_delete_hook (model_key self) w of
        (Inl e, w1) \<Rightarrow> (Inl e, w1)
      | (Inr u, w1) \<Rightarrow> (Inr (), datastore_delete (model_key self) w1))"

definition delete :: "entity \<Rightarrow> world \<Rightarrow> (exn + unit) \<times> world" where
  "delete self w =
     (case kind self of
        ImageCls \<Rightarrow> Image_delete self w
      | NdbImageCls \<Rightarrow> NdbImage_delete self w)"

subsection \<open>create\<close>

text \<open>
  The keyword arguments \<open>create\<close> hands to the constructor. Of the caller's own
  \<open>**kwargs\<close> the model keeps \<open>key_name\<close>; without it the datastore allocates the
  next numeric id. \<open>Image\<close> declares the property \<open>blob_info\<close> and \<open>NdbImage\<close> the
  property \<open>blob_key\<close>, which is why \<open>create\<close> chooses the keyword by class.
\<close>

record kwargs =
  kw_key_name :: "string option"
  kw_blob_info :: "blob_key option"
  kw_blob_key :: "blob_key option"
  kw_source_url :: "string option"

definition no_kwargs :: "string option \<Rightarrow> kwargs" where
  "no_kwargs key_name =
     \<lparr>kw_key_name = key_name, kw_blob_info = None, kw_blob_key = None, kw_source_url = None\<rparr>"

definition construct :: "model_class \<Rightarrow> kwargs \<Rightarrow> ekey \<Rightarrow> entity" where
  "construct cls kw k =
     \<lparr>kind = cls,
      model_key = k,
      blob_key = (case cls of ImageCls \<Rightarrow> kw_blob_info kw | NdbImageCls \<Rightarrow> kw_blob_key kw),
      source_url = kw_source_url kw\<rparr>"

definition create_new_entity :: "model_class \<Rightarrow> kwargs \<Rightarrow> world \<Rightarrow> entity \<times> world" where
  "create_new_entity cls kw w =
     (let k = (case kw_key_name kw of Some n \<Rightarrow> KeyName n | None \<Rightarrow> KeyId (next_id w));
          w1 = (case kw_key_name kw of Some n \<Rightarrow> w | None \<Rightarrow> w\<lparr>next_id := next_id w + 1\<rparr>);
          img = construct cls kw k
      in (img, put img w1))"

text \<open>
  Lines 205 to 212: with no data and a URL, fetch it; the content becomes the data, the
  \<open>Content-Type\<close> header the MIME type unless one was given, the last segment of the
  URL's path the filename unless one was given. A failing fetch raises.
\<close>

definition fetch_source ::
  "platform \<Rightarrow> bytes option \<Rightarrow> string option \<Rightarrow> string option \<Rightarrow> string option \<Rightarrow> world
     \<Rightarrow> (exn + bytes option \<times> string option \<times> string option) \<times> world" where
  "fetch_source P data filename url mime_type w =
     (if data = None then
        (case url of
           Some u \<Rightarrow>
             (let w1 = w\<lparr>trace := trace w @ [EvFetch u]\<rparr> in
              case urlfetch_fetch P u of
                Inl e \<Rightarrow> (Inl e, w1)
              | Inr response \<Rightarrow>
                  (Inr (Some (content response),
                        (if filename = None
                         then Some (after_last_slash (urlsplit_path P u))
                         else filename),
                        py_or mime_type (content_type response)), w1))
         | None \<Rightarrow> (Inr (data, filename, mime_type), w))
      else (Inr (data, filename, mime_type), w))"

text \<open>
  The \<open>try\<close> block of lines 232 to 244: the files API writes the data under a key of
  its choice; when it raises \<open>AssertionError\<close>, the blob is created in the testbed's
  Blobstore stub under the filename.
\<close>

definition store_blob ::
  "platform \<Rightarrow> string \<Rightarrow> string \<Rightarrow> bytes \<Rightarrow> world \<Rightarrow> (exn + blob_key) \<times> world" where
  "store_blob P mime_type filename data w =
     (if files_assertion_error P then
        (if testbed_instance P then
           (Inr filename,
            w\<lparr>blobs := (blobs w)(filename \<mapsto> data),
              trace := trace w @ [EvBlobWrite filename]\<rparr>)
         else (Inl (AttributeError ''NoneType object has no attribute get_stub''), w))
      else
        (let b = files_new_blob_key P (blob_count w) in
         (Inr b,
          w\<lparr>blobs := (blobs w)(b \<mapsto> data),
            blob_count := blob_count w + 1,
            trace := trace w @ [EvBlobWrite b]\<rparr>)))"

definition resolve_filename :: "platform \<Rightarrow> string option \<Rightarrow> entity \<Rightarrow> string" where
  "resolve_filename P filename img =
     (case py_or filename (Some (model_key_string P img)) of
        Some f \<Rightarrow> f
      | None \<Rightarrow> [])"

definition resolve_mime_type :: "platform \<Rightarrow> string option \<Rightarrow> string \<Rightarrow> string" where
  "resolve_mime_type P mime_type filename =
     (case py_or (py_or mime_type (guess_type P filename)) (Some ''application/octet-stream'') of
        Some m \<Rightarrow> m
      | None \<Rightarrow> [])"

definition mime_message :: "string \<Rightarrow> string" where
  "mime_message mime_type =
     ''The image mime type ('' @ mime_type @ '') isn'' @ [CHR 0x27] @ ''t valid''"

definition choose_format :: "string \<Rightarrow> image_format \<Rightarrow> image_format option" where
  "choose_format mime_type fmt =
     (let new_format = None;
          new_format = (if mime_type = ''image/jpeg'' \<and> fmt \<noteq> JPEG then Some JPEG else new_format);
          new_format = (if mime_type = ''image/png'' \<and> fmt \<noteq> PNG then Some PNG else new_format)
      in new_format)"

text \<open>Lines 215 to 246: the placeholder entity, the MIME check, the format check, the write.\<close>

definition create_from_data ::
  "config \<Rightarrow> platform \<Rightarrow> model_class \<Rightarrow> bytes \<Rightarrow> string option \<Rightarrow> string option \<Rightarrow>
     string option \<Rightarrow> string option \<Rightarrow> world \<Rightarrow> (exn + entity) \<times> world" where
  "create_from_data C P cls data filename url mime_type key_name w =
     (let (img, w1) = create_new_entity cls ((no_kwargs key_name)\<lparr>kw_source_url := url\<rparr>) w;
          filename = resolve_filename P filename img;
          mime_type = resolve_mime_type P mime_type filename
      in if mime_type \<notin> set (VALID_MIME_TYPES C) then
           (let message = mime_message mime_type;
                w2 = logging ''warning'' message w1
            in case delete img w2 of
                 (Inl e, w3) \<Rightarrow> (Inl e, w3)
               | (Inr u, w3) \<Rightarrow> (Inl (BadImageError message), w3))
         else
           (case image_data_info P data of
              Inl e \<Rightarrow> (Inl e, w1)
            | Inr info \<Rightarrow>
                (case (case choose_format mime_type (info_format info) of
                         None \<Rightarrow> Inr data
                       | Some new_format \<Rightarrow> images_crop P data new_format) of
                   Inl e \<Rightarrow> (Inl e, w1)
                 | Inr data \<Rightarrow>
                     (case store_blob P mime_type filename data w1 of
                        (Inl e, w2) \<Rightarrow> (Inl e, w2)
                      | (Inr b, w2) \<Rightarrow>
                          (let img = img\<lparr>blob_key := Some b\<rparr>
                           in (Inr img, put img w2))))))"

text \<open>
  \<open>create\<close>. \<open>bk\<close> and \<open>bi\<close> are the parameters \<open>blob_key\<close> and \<open>blob_info\<close>
  (a \<open>BlobInfo\<close> is represented by its key, the only thing \<open>create\<close> reads of it).
\<close>

definition create ::
  "config \<Rightarrow> platform \<Rightarrow> model_class \<Rightarrow> blob_key option \<Rightarrow> blob_key option \<Rightarrow> bytes option \<Rightarrow>
     string option \<Rightarrow> string option \<Rightarrow> string option \<Rightarrow> string option \<Rightarrow> world
     \<Rightarrow> (exn + entity) \<times> world" where
  "create C P cls bk bi data filename url mime_type key_name w =
     (let filename = map_option encode_ascii_ignore filename;
          url = map_option encode_ascii_ignore url
      in case bi of
           Some i \<Rightarrow>
             (let kw = (case cls of
                          ImageCls \<Rightarrow> (no_kwargs key_name)\<lparr>kw_blob_info := Some i\<rparr>
                        | NdbImageCls \<Rightarrow> (no_kwargs key_name)\<lparr>kw_blob_key := Some i\<rparr>);
                  (img, w1) = create_new_entity cls kw w
              in (Inr img, w1))
         | None \<Rightarrow>
             (case bk of
                Some b \<Rightarrow>
                  (let kw = (case cls of
                               NdbImageCls \<Rightarrow> (no_kwargs key_name)\<lparr>kw_blob_key := Some b\<rparr>
                             | ImageCls \<Rightarrow> (no_kwargs key_name)\<lparr>kw_blob_info := Some b\<rparr>);
                       (img, w1) = create_new_entity cls kw w
                   in (Inr img, w1))
              | None \<Rightarrow>
                  (case fetch_source P data filename url mime_type w of
                     (Inl e, w1) \<Rightarrow> (Inl e, w1)
                   | (Inr (data, filename, mime_type), w1) \<Rightarrow>
                       (case data of
                          None \<Rightarrow> (Inl (DbError ''No image data''), w1)
                        | Some d \<Rightarrow>
                            create_from_data C P cls d filename url mime_type key_name w1))))"

section \<open>A concrete platform\<close>

text \<open>
  A small platform on which the operations are evaluated: an image is recognised by its
  first three bytes, re-encoding prefixes the target format, the serving-URL service
  raises on its first \<open>failures\<close> calls and answers afterwards.
\<close>

definition ends_with :: "string \<Rightarrow> string \<Rightarrow> bool" where
  "ends_with suffix s = (length suffix \<le> length s \<and> drop (length s - length suffix) s = suffix)"

definition sample_image_info :: "bytes \<Rightarrow> exn + image_info" where
  "sample_image_info d =
     (if d = [] then Inl (NotImageError ''Empty image data.'')
      else if take 3 d = ''PNG'' then Inr \<lparr>info_format = PNG, info_width = 4, info_height = 3\<rparr>
      else if take 3 d = ''JPG'' then Inr \<lparr>info_format = JPEG, info_width = 4, info_height = 3\<rparr>
      else if take 3 d = ''GIF'' then Inr \<lparr>info_format = GIF, info_width = 4, info_height = 3\<rparr>
      else Inl (NotImageError ''not an image''))"

definition sample_crop :: "bytes \<Rightarrow> image_format \<Rightarrow> exn + bytes" where
  "sample_crop d f =
     (case f of
        PNG \<Rightarrow> Inr (''PNG~'' @ d)
      | JPEG \<Rightarrow> Inr (''JPG~'' @ d)
      | GIF \<Rightarrow> Inr (''GIF~'' @ d)
      | OtherFormat n \<Rightarrow> Inl (BadImageError ''unsupported encoding''))"

definition sample_guess_type :: "string \<Rightarrow> string option" where
  "sample_guess_type f =
     (if ends_with ''.png'' f then Some ''image/png''
      else if ends_with ''.jpg'' f then Some ''image/jpeg''
      else if ends_with ''.gif'' f then Some ''image/gif''
      else if ends_with ''.txt'' f then Some ''text/plain''
      else None)"

definition sample_fetch :: "string \<Rightarrow> exn + response" where
  "sample_fetch u =
     (if u = ''http://example.com/a/cat.png''
      then Inr \<lparr>content = ''JPG-cat'', content_type = None\<rparr>
      else if u = ''http://example.com/empty.png''
      then Inr \<lparr>content = [], content_type = None\<rparr>
      else Inl (ServiceError ''DownloadError''))"

definition sample_key_str :: "ekey \<Rightarrow> string" where
  "sample_key_str k = (case k of KeyId n \<Rightarrow> ''key'' @ str_nat n | KeyName s \<Rightarrow> s)"

definition sample_platform :: "nat \<Rightarrow> platform" where
  "sample_platform failures =
     \<lparr>key_str = (\<lambda>cls. sample_key_str),
      key_urlsafe = sample_key_str,
      guess_type = sample_guess_type,
      urlsplit_path = (\<lambda>u. dropWhile (\<lambda>c. c \<noteq> CHR ''/'') (drop 7 u)),
      urlfetch_fetch = sample_fetch,
      image_data_info = sample_image_info,
      image_blob_info = (\<lambda>b d. Inl (NotImageError ''dimensions unavailable'')),
      images_crop = sample_crop,
      images_get_serving_url =
        (\<lambda>n b sz crop secure_url.
           if n < failures then Inl (ServiceError ''deadline'')
           else Inr (Some (''http://images/'' @ b))),
      files_new_blob_key = (\<lambda>n. ''blob'' @ str_nat n),
      files_assertion_error = False,
      testbed_instance = False\<rparr>"

definition empty_world :: world where
  "empty_world =
     \<lparr>datastore = Map.empty, next_id = 1, blobs = Map.empty, blob_count = 0,
      memcache = Map.empty, now = 0, svc_calls = 0, trace = []\<rparr>"

section \<open>Notions used in the statements\<close>

text \<open>
  Every one of the \<open>SERVING_URL_LOOKUP_TRIES\<close> attempts that \<open>get_serving_url\<close>
  makes from the world \<open>w\<close> fails, that is, the service raises; there is at least one
  attempt.
\<close>

definition all_attempts_raise ::
  "config \<Rightarrow> platform \<Rightarrow> blob_key \<Rightarrow> int option \<Rightarrow> bool \<Rightarrow> bool option \<Rightarrow> world \<Rightarrow> bool" where
  "all_attempts_raise C P b sz crop secure_url w =
     (0 < SERVING_URL_LOOKUP_TRIES C \<and>
      list_all (\<lambda>n. isl (images_get_serving_url P (svc_calls w + n) b sz crop secure_url))
        [0 ..< nat (SERVING_URL_LOOKUP_TRIES C)])"

text \<open>The cache holds an entry for the entity, size and crop flag that has not expired.\<close>

definition cache_live :: "platform \<Rightarrow> entity \<Rightarrow> int option \<Rightarrow> bool \<Rightarrow> world \<Rightarrow> bool" where
  "cache_live P self sz crop w =
     (case memcache w (cache_namespace, cache_key P self sz crop) of
        None \<Rightarrow> False
      | Some en \<Rightarrow> entry_live (now w) en)"

text \<open>The world \<open>d\<close> seconds later, nothing else having happened.\<close>

definition later :: "nat \<Rightarrow> world \<Rightarrow> world" where
  "later d w = w\<lparr>now := now w + d\<rparr>"

text \<open>
  What the specification says \<open>image_data\<close> returns after a create with MIME type
  \<open>m\<close> from the bytes \<open>d\<close>: the bytes, or their re-encoding to the canonical format
  of \<open>m\<close> when \<open>m\<close> is \<open>image/jpeg\<close> or \<open>image/png\<close> and the detected format
  differs.
\<close>

definition canonical_format :: "string \<Rightarrow> image_format option" where
  "canonical_format m =
     (if m = ''image/jpeg'' then Some JPEG
      else if m = ''image/png'' then Some PNG
      else None)"

definition expected_image_data :: "platform \<Rightarrow> string \<Rightarrow> bytes \<Rightarrow> exn + bytes" where
  "expected_image_data P m d =
     (case image_data_info P d of
        Inl e \<Rightarrow> Inl e
      | Inr info \<Rightarrow>
          (case canonical_format m of
             None \<Rightarrow> Inr d
           | Some f \<Rightarrow> if info_format info = f then Inr d else images_crop P d f))"

text \<open>
  The sentence of the specification as it reads, with the MIME type the caller supplied
  (none supplied: no re-encoding), and the round trip it demands of the entity \<open>e\<close>
  that \<open>create\<close> returned in the world \<open>w'\<close> for the original bytes \<open>d\<close>.
\<close>

definition claimed_image_data :: "platform \<Rightarrow> string option \<Rightarrow> bytes \<Rightarrow> exn + bytes" where
  "claimed_image_data P mime_type d =
     (case mime_type of
        None \<Rightarrow> Inr d
      | Some m \<Rightarrow> expected_image_data P m d)"

definition roundtrip_as_claimed ::
  "platform \<Rightarrow> string option \<Rightarrow> bytes \<Rightarrow> entity \<Rightarrow> world \<Rightarrow> bool" where
  "roundtrip_as_claimed P mime_type d e w' =
     (case claimed_image_data P mime_type d of
        Inl x \<Rightarrow> False
      | Inr d' \<Rightarrow> image_data e w' = Inr (Some d'))"

text \<open>Worlds and entities on which the operations are evaluated.\<close>

definition sample_entity :: entity where
  "sample_entity =
     \<lparr>kind = ImageCls, model_key = KeyId 1, blob_key = Some ''b7'', source_url = None\<rparr>"

definition stored_world :: world where
  "stored_world = empty_world\<lparr>blobs := [''stored'' \<mapsto> ''JPG-cat'']\<rparr>"

definition big_world :: world where
  "big_world = empty_world\<lparr>blobs := [''big'' \<mapsto> ''PNG'' @ replicate 60000 (CHR ''x'')]\<rparr>"

definition big_entity :: entity where
  "big_entity =
     \<lparr>kind = NdbImageCls, model_key = KeyId 1, blob_key = Some ''big'', source_url = None\<rparr>"

section \<open>Facts about the operations\<close>

subsection \<open>The lookup loop\<close>

lemma lookup_loop_done:
  "\<not> tries < SERVING_URL_LOOKUP_TRIES C \<Longrightarrow>
   lookup_loop C P b sz crop secure_url tries serving_url w = (serving_url, w)"
  by (simp add: lookup_loop.simps)

lemma lookup_loop_calls:
  "svc_calls w \<le> svc_calls (snd (lookup_loop C P b sz crop secure_url tries serving_url w)) \<and>
   svc_calls (snd (lookup_loop C P b sz crop secure_url tries serving_url w))
     \<le> svc_calls w + nat (SERVING_URL_LOOKUP_TRIES C - tries)"
proof (induction k \<equiv> "nat (SERVING_URL_LOOKUP_TRIES C - tries)" arbitrary: tries serving_url w)
  case 0
  then have "\<not> tries < SERVING_URL_LOOKUP_TRIES C" by simp
  then show ?case by (simp add: lookup_loop_done)
next
  case (Suc k)
  then have lt: "tries < SERVING_URL_LOOKUP_TRIES C" by linarith
  from Suc have k: "k = nat (SERVING_URL_LOOKUP_TRIES C - (tries + 1))" by linarith
  have n: "nat (SERVING_URL_LOOKUP_TRIES C - tries) = Suc (nat (SERVING_URL_LOOKUP_TRIES C - (tries + 1)))"
    using lt by linarith
  note IH = Suc.hyps(1)[OF k]
  define w1 where "w1 = snd (call_serving_url P b sz crop secure_url w)"
  have c1: "svc_calls w1 = svc_calls w + 1"
    by (simp add: w1_def call_serving_url_def)
  show ?case
  proof (cases "fst (call_serving_url P b sz crop secure_url w)")
    case (Inl e)
    have lg: "svc_calls (logging l m w1) = svc_calls w1" for l m
      by (simp add: logging_def)
    show ?thesis
      using lt Inl IH[where serving_url=serving_url and w=w1] IH[where serving_url=serving_url and w="logging ''error'' (lookup_error_message e) w1"] c1 n
      apply (subst (1 2) lookup_loop.simps)
      apply (simp add: Let_def w1_def[symmetric] lg del: One_nat_def)
      apply linarith
      done
  next
    case (Inr u)
    show ?thesis
      using lt Inr IH[where serving_url=u and w=w1] c1 n
      apply (subst (1 2) lookup_loop.simps)
      apply (auto simp add: Let_def w1_def[symmetric])
      done
  qed
qed

lemma lookup_loop_all_raise:
  "tries < SERVING_URL_LOOKUP_TRIES C \<Longrightarrow>
   (\<forall>n < nat (SERVING_URL_LOOKUP_TRIES C - tries).
      isl (images_get_serving_url P (svc_calls w + n) b sz crop secure_url)) \<Longrightarrow>
   \<exists>e. images_get_serving_url P (svc_calls w + nat (SERVING_URL_LOOKUP_TRIES C - tries) - 1)
          b sz crop secure_url = Inl e \<and>
       lookup_loop C P b sz crop secure_url tries serving_url w =
         (serving_url,
          w\<lparr>svc_calls := svc_calls w + nat (SERVING_URL_LOOKUP_TRIES C - tries),
            trace := trace w
              @ replicate (nat (SERVING_URL_LOOKUP_TRIES C - tries)) (EvServing b sz crop secure_url)
              @ [EvLog ''error'' (lookup_error_message e)]\<rparr>)"
proof (induction k \<equiv> "nat (SERVING_URL_LOOKUP_TRIES C - tries)" arbitrary: tries w)
  case 0
  then show ?case by simp
next
  case (Suc k)
  let ?T = "SERVING_URL_LOOKUP_TRIES C"
  have lt: "tries < ?T" by (rule Suc.prems(1))
  have n: "nat (?T - tries) = Suc k" using Suc.hyps(2) by simp
  have "isl (images_get_serving_url P (svc_calls w + 0) b sz crop secure_url)"
    using Suc.prems(2) n by (metis zero_less_Suc)
  then obtain e where e: "images_get_serving_url P (svc_calls w) b sz crop secure_url = Inl e"
    by (cases "images_get_serving_url P (svc_calls w) b sz crop secure_url") auto
  define w1 where "w1 = w\<lparr>svc_calls := svc_calls w + 1,
        trace := trace w @ [EvServing b sz crop secure_url]\<rparr>"
  have call: "call_serving_url P b sz crop secure_url w = (Inl e, w1)"
    by (simp add: call_serving_url_def e w1_def)
  show ?case
  proof (cases "tries + 1 \<ge> ?T")
    case True
    then have k0: "k = 0" using n lt by linarith
    have "lookup_loop C P b sz crop secure_url tries serving_url w =
            (serving_url, logging ''error'' (lookup_error_message e) w1)"
      using lt True
      by (subst lookup_loop.simps) (simp add: call Let_def lookup_loop_done)
    then show ?thesis
      using e n k0 by (simp add: logging_def w1_def)
  next
    case False
    then have lt': "tries + 1 < ?T" by simp
    have k: "k = nat (?T - (tries + 1))" using n by linarith
    have all: "\<forall>m < nat (?T - (tries + 1)).
                 isl (images_get_serving_url P (svc_calls w1 + m) b sz crop secure_url)"
    proof (intro allI impI)
      fix m assume "m < nat (?T - (tries + 1))"
      then have "Suc m < nat (?T - tries)" using n k by simp
      then have "isl (images_get_serving_url P (svc_calls w + Suc m) b sz crop secure_url)"
        using Suc.prems(2) by blast
      then show "isl (images_get_serving_url P (svc_calls w1 + m) b sz crop secure_url)"
        by (simp add: w1_def)
    qed
    from Suc.hyps(1)[OF k lt' all]
    obtain e' where
      e': "images_get_serving_url P (svc_calls w1 + nat (?T - (tries + 1)) - 1) b sz crop secure_url = Inl e'"
      and r: "lookup_loop C P b sz crop secure_url (tries + 1) serving_url w1 =
         (serving_url,
          w1\<lparr>svc_calls := svc_calls w1 + nat (?T - (tries + 1)),
            trace := trace w1
              @ replicate (nat (?T - (tries + 1))) (EvServing b sz crop secure_url)
              @ [EvLog ''error'' (lookup_error_message e')]\<rparr>)"
      by blast
    have step: "lookup_loop C P b sz crop secure_url tries serving_url w =
                lookup_loop C P b sz crop secure_url (tries + 1) serving_url w1"
      using lt False
      by (subst lookup_loop.simps) (simp add: call Let_def)
    have idx: "svc_calls w1 + nat (?T - (tries + 1)) - 1 = svc_calls w + nat (?T - tries) - 1"
      using n k by (simp add: w1_def)
    show ?thesis
      using e' r step idx n k
      by (simp add: w1_def replicate_app_Cons_same)
  qed
qed

subsection \<open>The serving-URL cache\<close>

lemma cached_url_returned:
  assumes "blob_key self \<noteq> None"
    and "get_serving_url C P self sz crop s1 w = (Some u, w1)"
    and "cache_live P self sz crop (later d w1)"
  shows "get_serving_url C P self sz crop s2 (later d w1) = (Some u, later d w1)"
proof -
  have "\<exists>ex. memcache w1 (cache_namespace, cache_key P self sz crop) = Some (u, ex)"
    using assms(1,2)
    by (auto simp: get_serving_url_def Let_def memcache_get_def memcache_set_def
             split: option.splits prod.splits if_splits)
  then obtain ex where "memcache w1 (cache_namespace, cache_key P self sz crop) = Some (u, ex)" ..
  then have "memcache_get (cache_key P self sz crop) cache_namespace (later d w1) = Some u"
    using assms(3) by (simp add: memcache_get_def cache_live_def later_def)
  then show ?thesis
    using assms(1) by (auto simp: get_serving_url_def Let_def)
qed

lemma cache_live_after_lookup:
  assumes "blob_key self \<noteq> None"
    and "memcache_get (cache_key P self sz crop) cache_namespace w = None"
    and "get_serving_url C P self sz crop secure_url w = (Some u, w1)"
    and "SERVING_URL_TIMEOUT C = 0 \<or> d < SERVING_URL_TIMEOUT C"
  shows "cache_live P self sz crop (later d w1)"
proof -
  obtain r w0 where L: "lookup_loop C P (the (blob_key self)) sz crop secure_url 0 None w = (r, w0)"
    by (cases "lookup_loop C P (the (blob_key self)) sz crop secure_url 0 None w")
  have "w1 = memcache_set (cache_key P self sz crop) u (SERVING_URL_TIMEOUT C) cache_namespace w0"
    using assms(1,2,3) L
    by (auto simp: get_serving_url_def Let_def split: option.splits)
  then show ?thesis
    using assms(4)
    by (auto simp: cache_live_def later_def memcache_set_def entry_live_def)
qed

subsection \<open>The steps of create\<close>

lemma fetch_source_world:
  "fetch_source P data filename url mime_type w = (r, w1) \<Longrightarrow>
   datastore w1 = datastore w \<and> blobs w1 = blobs w \<and> next_id w1 = next_id w \<and>
   blob_count w1 = blob_count w"
  by (auto simp: fetch_source_def Let_def split: if_splits option.splits sum.splits)

lemma create_new_entity_result:
  "create_new_entity cls kw w = (img, w2) \<Longrightarrow>
   kind img = cls \<and>
   blob_key img = (case cls of ImageCls \<Rightarrow> kw_blob_info kw | NdbImageCls \<Rightarrow> kw_blob_key kw) \<and>
   source_url img = kw_source_url kw \<and>
   datastore w2 = (datastore w)(model_key img \<mapsto> img) \<and>
   blobs w2 = blobs w \<and> blob_count w2 = blob_count w \<and>
   trace w2 = trace w @ [EvPut (model_key img)]"
  by (auto simp: create_new_entity_def construct_def put_def Let_def split: option.splits)

lemma delete_placeholder:
  assumes "blob_key img = None" and "datastore w (model_key img) = Some img"
  shows "delete img w = (Inr (), datastore_delete (model_key img) w)"
  using assms
  by (cases "kind img")
     (simp_all add: delete_def Image_delete_def NdbImage_delete_def pre_delete_hook_def
        get_blob_info_def)

lemma create_data_path:
  assumes "fetch_source P data (map_option encode_ascii_ignore filename)
             (map_option encode_ascii_ignore url) mime_type w = (Inr (Some d, fn, mt), w1)"
  shows "create C P cls None None data filename url mime_type key_name w =
           create_from_data C P cls d fn (map_option encode_ascii_ignore url) mt key_name w1"
  using assms by (simp add: create_def Let_def)

lemma create_fetched_content_is_data:
  assumes "urlfetch_fetch P (encode_ascii_ignore u) = Inr r"
  shows "create C P cls None None None filename (Some u) mime_type key_name w =
           create_from_data C P cls (content r)
             (if filename = None
              then Some (after_last_slash (urlsplit_path P (encode_ascii_ignore u)))
              else map_option encode_ascii_ignore filename)
             (Some (encode_ascii_ignore u))
             (py_or mime_type (content_type r)) key_name
             (w\<lparr>trace := trace w @ [EvFetch (encode_ascii_ignore u)]\<rparr>)"
  using assms by (simp add: create_def fetch_source_def Let_def)

lemma create_with_reference:
  assumes "bi \<noteq> None \<or> bk \<noteq> None"
  shows "create C P cls bk bi data filename url mime_type key_name w =
           (let k = (case key_name of Some n \<Rightarrow> KeyName n | None \<Rightarrow> KeyId (next_id w));
                img = \<lparr>kind = cls, model_key = k,
                       blob_key = (case bi of Some i \<Rightarrow> Some i | None \<Rightarrow> bk),
                       source_url = None\<rparr>
            in (Inr img,
                w\<lparr>datastore := (datastore w)(k \<mapsto> img),
                  next_id := (case key_name of Some n \<Rightarrow> next_id w | None \<Rightarrow> next_id w + 1),
                  trace := trace w @ [EvPut k]\<rparr>))"
  using assms
  by (cases cls; cases bi; cases bk; cases key_name)
     (simp_all add: create_def create_new_entity_def construct_def no_kwargs_def put_def Let_def)

lemma choose_format_canonical:
  "choose_format m f =
     (case canonical_format m of None \<Rightarrow> None | Some c \<Rightarrow> if f = c then None else Some c)"
  by (simp add: choose_format_def canonical_format_def Let_def)

lemma store_blob_read:
  "store_blob P m fn d w = (Inr b, w') \<Longrightarrow> blobs w' b = Some d"
  by (auto simp: store_blob_def Let_def split: if_splits)

lemma create_from_data_image_data:
  assumes ent: "create_new_entity cls ((no_kwargs key_name)\<lparr>kw_source_url := url\<rparr>) w1 = (img, w2)"
    and ok: "create_from_data C P cls d fn url mt key_name w1 = (Inr e, w')"
  shows "\<exists>d'. expected_image_data P (resolve_mime_type P mt (resolve_filename P fn img)) d = Inr d' \<and>
              image_data e w' = Inr (Some d')"
  using ok
  by (auto simp: create_from_data_def ent Let_def expected_image_data_def choose_format_canonical
        image_data_def put_def
      split: if_splits sum.splits option.splits prod.splits dest: store_blob_read)

subsection \<open>The metadata properties\<close>

lemma image_property_no_blob:
  "blob_key self = None \<Longrightarrow> image_property f P self w = Inr None"
  by (simp add: image_property_def)

lemma image_property_fallback:
  assumes "blob_key self = Some b" and "blobs w b = Some d"
    and "image_blob_info P b (blobs w b) = Inl (NotImageError m)"
  shows "header_data b w = Inr (take (IMAGE_HEADER_SIZE + 1) d) \<and>
         image_property f P self w =
           (case image_data_info P (take (IMAGE_HEADER_SIZE + 1) d) of
              Inl e \<Rightarrow> Inl e
            | Inr i \<Rightarrow> Inr (Some (f i)))"
  using assms by (simp add: image_property_def header_data_def fetch_data_def)

subsection \<open>Evaluation on the concrete platform\<close>

lemmas sample_simps =
  sample_platform_def sample_fetch_def sample_guess_type_def sample_image_info_def
  sample_crop_def sample_key_str_def ends_with_def empty_world_def default_config_def
  encode_ascii_ignore_def

lemma sample_miss:
  "memcache_get k ns empty_world = None"
  by (simp add: memcache_get_def empty_world_def)

lemma sample_first_call:
  "get_serving_url default_config (sample_platform 2) sample_entity (Some 32) False s empty_world
     = (Some ''http://images/b7'',
        snd (get_serving_url default_config (sample_platform 2) sample_entity (Some 32) False s
               empty_world))"
proof -
  have "fst (get_serving_url default_config (sample_platform 2) sample_entity (Some 32) False s
               empty_world) = Some ''http://images/b7''"
    by code_simp
  then show ?thesis
    by (simp add: prod_eq_iff)
qed

lemma sample_create:
  "create default_config (sample_platform 0) ImageCls None None (Some ''JPG-cat'')
          (Some ''cat.png'') None None None empty_world
     = (Inr \<lparr>kind = ImageCls, model_key = KeyId 1, blob_key = Some ''blob0'', source_url = None\<rparr>,
        snd (create default_config (sample_platform 0) ImageCls None None (Some ''JPG-cat'')
          (Some ''cat.png'') None None None empty_world))"
proof -
  have "fst (create default_config (sample_platform 0) ImageCls None None (Some ''JPG-cat'')
          (Some ''cat.png'') None None None empty_world)
     = Inr \<lparr>kind = ImageCls, model_key = KeyId 1, blob_key = Some ''blob0'', source_url = None\<rparr>"
    by code_simp
  then show ?thesis by (simp add: prod_eq_iff)
qed

section \<open>The claims\<close>

text \<open>
  C1. When \<open>create\<close> is given data (directly or through a URL) and the MIME type it
  resolves (the argument, else the response's \<open>Content-Type\<close>, else the guess from the
  filename, else \<open>application/octet-stream\<close>) is not in \<open>VALID_MIME_TYPES\<close>, it
  raises \<open>BadImageError\<close>. Before that it has put the placeholder entity, logged a
  warning and deleted the placeholder, in this order: the datastore after the call has no
  record under the placeholder's key, and the Blobstore is as it was.
\<close>

theorem create_invalid_mime_type:
  assumes src: "fetch_source P data (map_option encode_ascii_ignore filename)
                  (map_option encode_ascii_ignore url) mime_type w = (Inr (Some d, fn, mt), w1)"
    and ent: "create_new_entity cls
                ((no_kwargs key_name)\<lparr>kw_source_url := map_option encode_ascii_ignore url\<rparr>) w1
              = (img, w2)"
    and bad: "resolve_mime_type P mt (resolve_filename P fn img) \<notin> set (VALID_MIME_TYPES C)"
  shows "\<exists>m w'. create C P cls None None data filename url mime_type key_name w
                  = (Inl (BadImageError m), w') \<and>
               datastore w' = (datastore w)(model_key img := None) \<and>
               blobs w' = blobs w \<and>
               trace w' = trace w1 @ [EvPut (model_key img), EvLog ''warning'' m,
                                      EvDelete (model_key img)]"
proof -
  let ?m = "mime_message (resolve_mime_type P mt (resolve_filename P fn img))"
  let ?w2 = "logging ''warning'' ?m w2"
  note E = create_new_entity_result[OF ent]
  have nb: "blob_key img = None"
    using E by (cases cls) (simp_all add: no_kwargs_def)
  have st: "datastore ?w2 (model_key img) = Some img"
    using E by (simp add: logging_def)
  have del: "delete img ?w2 = (Inr (), datastore_delete (model_key img) ?w2)"
    by (rule delete_placeholder[OF nb st])
  have res: "create C P cls None None data filename url mime_type key_name w
               = (Inl (BadImageError ?m), datastore_delete (model_key img) ?w2)"
    using bad del by (simp add: create_data_path[OF src] create_from_data_def ent Let_def)
  have W: "datastore w1 = datastore w" "blobs w1 = blobs w"
    using fetch_source_world[OF src] by simp_all
  show ?thesis
    using res E W
    by (intro exI[of _ ?m] exI[of _ "datastore_delete (model_key img) ?w2"])
       (simp add: datastore_delete_def logging_def)
qed

theorem create_invalid_mime_type_witness:
  "\<exists>m w'. create default_config (sample_platform 0) NdbImageCls None None (Some ''GIFabc'')
              (Some ''a.txt'') None None None empty_world = (Inl (BadImageError m), w') \<and>
          datastore w' = (datastore empty_world)(KeyId 1 := None) \<and>
          blobs w' = blobs empty_world \<and>
          trace w' = trace empty_world @ [EvPut (KeyId 1), EvLog ''warning'' m, EvDelete (KeyId 1)]"
proof -
  let ?img = "\<lparr>kind = NdbImageCls, model_key = KeyId 1, blob_key = None, source_url = None\<rparr>"
  have src: "fetch_source (sample_platform 0) (Some ''GIFabc'') (map_option encode_ascii_ignore (Some ''a.txt''))
               (map_option encode_ascii_ignore None) None empty_world
             = (Inr (Some ''GIFabc'', Some ''a.txt'', None), empty_world)"
    by (simp add: fetch_source_def encode_ascii_ignore_def)
  have ent: "create_new_entity NdbImageCls
               ((no_kwargs None)\<lparr>kw_source_url := map_option encode_ascii_ignore None\<rparr>) empty_world
             = (?img, put ?img (empty_world\<lparr>next_id := next_id empty_world + 1\<rparr>))"
    by (simp add: create_new_entity_def construct_def no_kwargs_def empty_world_def Let_def)
  have bad: "resolve_mime_type (sample_platform 0) None (resolve_filename (sample_platform 0) (Some ''a.txt'') ?img)
               \<notin> set (VALID_MIME_TYPES default_config)"
    by (simp add: resolve_mime_type_def resolve_filename_def py_or_def sample_simps)
  show ?thesis
    using create_invalid_mime_type[OF src ent bad] by simp
qed

text \<open>
  C2. \<open>delete\<close> on an entity returns normally, leaves no record under the entity's
  key and no blob under the entity's blob reference, and deletes the blob before the
  record. For \<open>NdbImage\<close> the work is done by \<open>_pre_delete_hook\<close>, which reads the
  stored entity, so the entity is taken to be the stored one; it skips the Blobstore call
  when the referenced blob is already gone.
\<close>

theorem delete_removes_blob_then_entity:
  assumes "kind self = ImageCls \<or> datastore w (model_key self) = Some self"
  shows "fst (delete self w) = Inr () \<and>
         datastore (snd (delete self w)) (model_key self) = None \<and>
         (case blob_key self of
            None \<Rightarrow> trace (snd (delete self w)) = trace w @ [EvDelete (model_key self)]
          | Some b \<Rightarrow>
              blobs (snd (delete self w)) b = None \<and>
              (if blobs w b = None \<and> kind self = NdbImageCls
               then trace (snd (delete self w)) = trace w @ [EvDelete (model_key self)]
               else trace (snd (delete self w))
                      = trace w @ [EvBlobDelete b, EvDelete (model_key self)]))"
  using assms
  by (cases "kind self"; cases "blob_key self")
     (auto simp: delete_def Image_delete_def NdbImage_delete_def pre_delete_hook_def
        get_blob_info_def datastore_delete_def blobstore_delete_def Let_def)

theorem delete_removes_blob_then_entity_witness:
  "fst (delete \<lparr>kind = NdbImageCls, model_key = KeyId 1, blob_key = Some ''b7'', source_url = None\<rparr>
         (empty_world\<lparr>datastore := [KeyId 1 \<mapsto>
              \<lparr>kind = NdbImageCls, model_key = KeyId 1, blob_key = Some ''b7'', source_url = None\<rparr>],
            blobs := [''b7'' \<mapsto> ''GIFabc'']\<rparr>)) = Inr () \<and>
   blobs (snd (delete \<lparr>kind = NdbImageCls, model_key = KeyId 1, blob_key = Some ''b7'', source_url = None\<rparr>
         (empty_world\<lparr>datastore := [KeyId 1 \<mapsto>
              \<lparr>kind = NdbImageCls, model_key = KeyId 1, blob_key = Some ''b7'', source_url = None\<rparr>],
            blobs := [''b7'' \<mapsto> ''GIFabc'']\<rparr>))) ''b7'' = None \<and>
   trace (snd (delete \<lparr>kind = NdbImageCls, model_key = KeyId 1, blob_key = Some ''b7'', source_url = None\<rparr>
         (empty_world\<lparr>datastore := [KeyId 1 \<mapsto>
              \<lparr>kind = NdbImageCls, model_key = KeyId 1, blob_key = Some ''b7'', source_url = None\<rparr>],
            blobs := [''b7'' \<mapsto> ''GIFabc'']\<rparr>))) = [EvBlobDelete ''b7'', EvDelete (KeyId 1)]"
proof -
  let ?e = "\<lparr>kind = NdbImageCls, model_key = KeyId 1, blob_key = Some ''b7'', source_url = None\<rparr>"
  let ?w = "empty_world\<lparr>datastore := [KeyId 1 \<mapsto> ?e], blobs := [''b7'' \<mapsto> ''GIFabc'']\<rparr>"
  have h: "kind ?e = ImageCls \<or> datastore ?w (model_key ?e) = Some ?e" by simp
  show ?thesis
    using delete_removes_blob_then_entity[OF h] by (simp add: empty_world_def)
qed

text \<open>
  C3. \<open>get_serving_url\<close> has no exception among its results and is total: the loop
  terminates, and the only call that raises, the serving-URL service, sits under
  \<open>except Exception\<close>. For an entity with a blob reference it calls the service at
  most \<open>SERVING_URL_LOOKUP_TRIES\<close> times. On a cache miss, when every attempt raises,
  it makes exactly that many calls, then logs one error carrying the message of the last
  exception, and returns \<open>None\<close>, leaving the cache as it was.
\<close>

theorem get_serving_url_bounded:
  assumes "blob_key self = Some b"
  shows "svc_calls w \<le> svc_calls (snd (get_serving_url C P self sz crop secure_url w)) \<and>
         int (svc_calls (snd (get_serving_url C P self sz crop secure_url w))) - int (svc_calls w)
           \<le> max 0 (SERVING_URL_LOOKUP_TRIES C) \<and>
         (memcache_get (cache_key P self sz crop) cache_namespace w = None \<and>
          all_attempts_raise C P b sz crop secure_url w \<longrightarrow>
            (\<exists>e. images_get_serving_url P (svc_calls w + nat (SERVING_URL_LOOKUP_TRIES C) - 1)
                   b sz crop secure_url = Inl e \<and>
                 get_serving_url C P self sz crop secure_url w =
                   (None,
                    w\<lparr>svc_calls := svc_calls w + nat (SERVING_URL_LOOKUP_TRIES C),
                      trace := trace w
                        @ replicate (nat (SERVING_URL_LOOKUP_TRIES C)) (EvServing b sz crop secure_url)
                        @ [EvLog ''error'' (lookup_error_message e)]\<rparr>)))"
proof -
  let ?T = "SERVING_URL_LOOKUP_TRIES C"
  let ?L = "lookup_loop C P b sz crop secure_url 0 None w"
  have calls: "svc_calls w \<le> svc_calls (snd ?L) \<and> svc_calls (snd ?L) \<le> svc_calls w + nat ?T"
    using lookup_loop_calls[of w C P b sz crop secure_url 0 None] by simp
  have set_calls: "svc_calls (memcache_set k u t ns w') = svc_calls w'" for k u t ns w'
    by (simp add: memcache_set_def)
  have bound: "svc_calls w \<le> svc_calls (snd (get_serving_url C P self sz crop secure_url w)) \<and>
         int (svc_calls (snd (get_serving_url C P self sz crop secure_url w))) - int (svc_calls w)
           \<le> max 0 ?T"
    using calls assms
    by (auto simp: get_serving_url_def Let_def set_calls split: option.splits prod.splits)
  have fail: "\<exists>e. images_get_serving_url P (svc_calls w + nat ?T - 1) b sz crop secure_url = Inl e \<and>
                 get_serving_url C P self sz crop secure_url w =
                   (None,
                    w\<lparr>svc_calls := svc_calls w + nat ?T,
                      trace := trace w
                        @ replicate (nat ?T) (EvServing b sz crop secure_url)
                        @ [EvLog ''error'' (lookup_error_message e)]\<rparr>)"
    if miss: "memcache_get (cache_key P self sz crop) cache_namespace w = None"
      and ar: "all_attempts_raise C P b sz crop secure_url w"
  proof -
    from ar have pos: "0 < ?T"
      and all: "\<forall>n < nat (?T - 0). isl (images_get_serving_url P (svc_calls w + n) b sz crop secure_url)"
      by (auto simp: all_attempts_raise_def list_all_iff)
    from lookup_loop_all_raise[OF pos all, of None]
    obtain e where e: "images_get_serving_url P (svc_calls w + nat ?T - 1) b sz crop secure_url = Inl e"
      and r: "?L = (None,
          w\<lparr>svc_calls := svc_calls w + nat ?T,
            trace := trace w @ replicate (nat ?T) (EvServing b sz crop secure_url)
              @ [EvLog ''error'' (lookup_error_message e)]\<rparr>)"
      by auto
    show ?thesis
      using e r assms miss by (auto simp: get_serving_url_def Let_def)
  qed
  from bound fail show ?thesis by blast
qed

theorem get_serving_url_bounded_witness:
  "get_serving_url default_config (sample_platform 3) sample_entity (Some 32) False None empty_world
     = (None,
        empty_world\<lparr>svc_calls := 3,
          trace := replicate 3 (EvServing ''b7'' (Some 32) False None)
                   @ [EvLog ''error'' (lookup_error_message (ServiceError ''deadline''))]\<rparr>) \<and>
   svc_calls (snd (get_serving_url default_config (sample_platform 3) sample_entity (Some 32) False
                     None empty_world)) \<le> 3"
proof -
  have b: "blob_key sample_entity = Some ''b7''"
    by (simp add: sample_entity_def)
  have r: "all_attempts_raise default_config (sample_platform 3) ''b7'' (Some 32) False None empty_world"
    by (simp add: all_attempts_raise_def default_config_def sample_platform_def empty_world_def
          list_all_iff)
  have e: "images_get_serving_url (sample_platform 3) n ''b7'' (Some 32) False None = Inl x
           \<longleftrightarrow> n < 3 \<and> x = ServiceError ''deadline''" for n x
    by (auto simp: sample_platform_def)
  have T: "SERVING_URL_LOOKUP_TRIES default_config = 3" "svc_calls empty_world = 0"
    "trace empty_world = []"
    by (simp_all add: default_config_def empty_world_def)
  show ?thesis
    using get_serving_url_bounded[OF b, of empty_world default_config "sample_platform 3"
            "Some 32" False None] r sample_miss
    by (auto simp: e T)
qed

text \<open>
  C4. After a call of \<open>get_serving_url\<close> that returned a URL, a second call with the
  same size, crop flag and \<open>secure_url\<close>, made \<open>d\<close> seconds later while the cache
  entry is live, returns the same URL and leaves the world as it is: no call of the
  service, no event. After a cache miss the entry written by the first call is live for
  every \<open>d\<close> below \<open>SERVING_URL_TIMEOUT\<close> (and for ever when the timeout is 0).
\<close>

theorem get_serving_url_repeat_cached:
  assumes "blob_key self \<noteq> None"
    and "get_serving_url C P self sz crop secure_url w = (Some u, w1)"
  shows "(cache_live P self sz crop (later d w1) \<longrightarrow>
            get_serving_url C P self sz crop secure_url (later d w1) = (Some u, later d w1)) \<and>
         (memcache_get (cache_key P self sz crop) cache_namespace w = None \<and>
          (SERVING_URL_TIMEOUT C = 0 \<or> d < SERVING_URL_TIMEOUT C) \<longrightarrow>
            cache_live P self sz crop (later d w1))"
  using cached_url_returned[OF assms] cache_live_after_lookup[OF assms(1) _ assms(2)]
  by blast

theorem get_serving_url_repeat_cached_witness:
  "get_serving_url default_config (sample_platform 2) sample_entity (Some 32) False None
     (later 100 (snd (get_serving_url default_config (sample_platform 2) sample_entity (Some 32)
                        False None empty_world)))
   = (Some ''http://images/b7'',
      later 100 (snd (get_serving_url default_config (sample_platform 2) sample_entity (Some 32)
                        False None empty_world)))"
proof -
  have b: "blob_key sample_entity \<noteq> None"
    by (simp add: sample_entity_def)
  have t: "(100::nat) < SERVING_URL_TIMEOUT default_config"
    by (simp add: default_config_def)
  show ?thesis
    using get_serving_url_repeat_cached[OF b sample_first_call, of 100] sample_miss t
    by simp
qed

text \<open>
  C5, as amended. After a successful \<open>create\<close> from an existing blob reference, the
  entity carries that reference and \<open>image_data\<close> returns the bytes stored under it,
  unchanged, whatever MIME type was supplied. After a successful \<open>create\<close> from raw
  bytes or a URL, \<open>image_data\<close> returns the original bytes (the data given, or the
  content fetched), except when the resolved MIME type (the argument, else the response's
  \<open>Content-Type\<close>, else the guess from the filename) is \<open>image/jpeg\<close> or
  \<open>image/png\<close> and the detected format differs: then it returns what
  \<open>images.crop(data, 0.0, 0.0, 1.0, 1.0, output_encoding, quality=100)\<close> made of them.
\<close>

theorem create_image_data_roundtrip:
  assumes "create C P cls bk bi data filename url mime_type key_name w = (Inr e, w')"
  shows "(bi \<noteq> None \<or> bk \<noteq> None \<longrightarrow>
            blob_key e = (case bi of Some i \<Rightarrow> Some i | None \<Rightarrow> bk) \<and>
            (\<forall>b d. blob_key e = Some b \<and> blobs w b = Some d \<longrightarrow> image_data e w' = Inr (Some d))) \<and>
         (bi = None \<and> bk = None \<longrightarrow>
            (\<exists>d fn mt w1 img w2 d'.
               fetch_source P data (map_option encode_ascii_ignore filename)
                 (map_option encode_ascii_ignore url) mime_type w = (Inr (Some d, fn, mt), w1) \<and>
               create_new_entity cls
                 ((no_kwargs key_name)\<lparr>kw_source_url := map_option encode_ascii_ignore url\<rparr>) w1
                 = (img, w2) \<and>
               expected_image_data P (resolve_mime_type P mt (resolve_filename P fn img)) d = Inr d' \<and>
               image_data e w' = Inr (Some d')))"
proof (intro conjI impI)
  assume r: "bi \<noteq> None \<or> bk \<noteq> None"
  from create_with_reference[OF r, of C P cls data filename url mime_type key_name w] assms
  have e: "e = \<lparr>kind = cls,
                model_key = (case key_name of Some n \<Rightarrow> KeyName n | None \<Rightarrow> KeyId (next_id w)),
                blob_key = (case bi of Some i \<Rightarrow> Some i | None \<Rightarrow> bk), source_url = None\<rparr>"
    and w': "blobs w' = blobs w"
    by (auto simp: Let_def)
  show "blob_key e = (case bi of Some i \<Rightarrow> Some i | None \<Rightarrow> bk)"
    using e by simp
  show "\<forall>b d. blob_key e = Some b \<and> blobs w b = Some d \<longrightarrow> image_data e w' = Inr (Some d)"
    using w' by (auto simp: image_data_def)
next
  assume n: "bi = None \<and> bk = None"
  obtain r w1 where fs: "fetch_source P data (map_option encode_ascii_ignore filename)
                 (map_option encode_ascii_ignore url) mime_type w = (r, w1)"
    by (cases "fetch_source P data (map_option encode_ascii_ignore filename)
                 (map_option encode_ascii_ignore url) mime_type w")
  from assms n fs obtain d fn mt where r: "r = Inr (Some d, fn, mt)"
    and cd: "create_from_data C P cls d fn (map_option encode_ascii_ignore url) mt key_name w1 = (Inr e, w')"
    by (auto simp: create_def Let_def split: sum.splits option.splits prod.splits)
  obtain img w2 where ent: "create_new_entity cls
                 ((no_kwargs key_name)\<lparr>kw_source_url := map_option encode_ascii_ignore url\<rparr>) w1
                 = (img, w2)"
    by (cases "create_new_entity cls
                 ((no_kwargs key_name)\<lparr>kw_source_url := map_option encode_ascii_ignore url\<rparr>) w1")
  from create_from_data_image_data[OF ent cd] fs r ent
  show "\<exists>d fn mt w1 img w2 d'.
               fetch_source P data (map_option encode_ascii_ignore filename)
                 (map_option encode_ascii_ignore url) mime_type w = (Inr (Some d, fn, mt), w1) \<and>
               create_new_entity cls
                 ((no_kwargs key_name)\<lparr>kw_source_url := map_option encode_ascii_ignore url\<rparr>) w1
                 = (img, w2) \<and>
               expected_image_data P (resolve_mime_type P mt (resolve_filename P fn img)) d = Inr d' \<and>
               image_data e w' = Inr (Some d')"
    by blast
qed

theorem create_image_data_roundtrip_witness:
  "image_data \<lparr>kind = ImageCls, model_key = KeyId 1, blob_key = Some ''blob0'', source_url = None\<rparr>
     (snd (create default_config (sample_platform 0) ImageCls None None (Some ''JPG-cat'')
          (Some ''cat.png'') None None None empty_world))
   = Inr (Some ''PNG~JPG-cat'')"
proof -
  have src: "fetch_source (sample_platform 0) (Some ''JPG-cat'') (Some (encode_ascii_ignore ''cat.png''))
               None None empty_world = (r, w1)
             \<longleftrightarrow> r = Inr (Some ''JPG-cat'', Some ''cat.png'', None) \<and> w1 = empty_world" for r w1
    by (auto simp: fetch_source_def encode_ascii_ignore_def)
  have ex: "expected_image_data (sample_platform 0)
              (resolve_mime_type (sample_platform 0) None (resolve_filename (sample_platform 0) (Some ''cat.png'') img))
              ''JPG-cat'' = Inr ''PNG~JPG-cat''" for img
    by (simp add: expected_image_data_def canonical_format_def resolve_mime_type_def
          resolve_filename_def py_or_def sample_simps)
  show ?thesis
    using create_image_data_roundtrip[OF sample_create]
    by (auto simp: src ex)
qed

text \<open>
  C5 as stated fails in two ways. A create from the blob reference \<open>stored\<close>, a JPEG,
  with the MIME type \<open>image/png\<close> supplied, leaves the blob as it is: no re-encoding.
  A create from JPEG bytes with no MIME type supplied and the filename \<open>cat.png\<close>
  stores the bytes re-encoded as PNG: not the original bytes.
\<close>

theorem create_image_data_counterexample:
  "fst (create default_config (sample_platform 0) ImageCls (Some ''stored'') None None None None
          (Some ''image/png'') None stored_world)
     = Inr \<lparr>kind = ImageCls, model_key = KeyId 1, blob_key = Some ''stored'', source_url = None\<rparr> \<and>
   blobs stored_world ''stored'' = Some ''JPG-cat'' \<and>
   \<not> roundtrip_as_claimed (sample_platform 0) (Some ''image/png'') ''JPG-cat''
       \<lparr>kind = ImageCls, model_key = KeyId 1, blob_key = Some ''stored'', source_url = None\<rparr>
       (snd (create default_config (sample_platform 0) ImageCls (Some ''stored'') None None None None
          (Some ''image/png'') None stored_world)) \<and>
   fst (create default_config (sample_platform 0) ImageCls None None (Some ''JPG-cat'')
          (Some ''cat.png'') None None None empty_world)
     = Inr \<lparr>kind = ImageCls, model_key = KeyId 1, blob_key = Some ''blob0'', source_url = None\<rparr> \<and>
   \<not> roundtrip_as_claimed (sample_platform 0) None ''JPG-cat''
       \<lparr>kind = ImageCls, model_key = KeyId 1, blob_key = Some ''blob0'', source_url = None\<rparr>
       (snd (create default_config (sample_platform 0) ImageCls None None (Some ''JPG-cat'')
          (Some ''cat.png'') None None None empty_world))"
  by code_simp

text \<open>
  C6. On a blob of more than 50000 bytes for which the read on the blob key raises
  \<open>NotImageError\<close>, the properties read the data returned by
  \<open>blobstore.fetch_data(self.blob_key, 0, IMAGE_HEADER_SIZE)\<close>. The end index is
  included, so the data has 50001 bytes, one more than \<open>IMAGE_HEADER_SIZE\<close>.
\<close>

theorem format_header_window_size:
  "blob_key big_entity = Some ''big'' \<and>
   image_blob_info (sample_platform 0) ''big'' (blobs big_world ''big'')
     = Inl (NotImageError ''dimensions unavailable'') \<and>
   header_data ''big'' big_world = Inr (''PNG'' @ replicate 49998 (CHR ''x'')) \<and>
   length (''PNG'' @ replicate 49998 (CHR ''x'')) = 50001 \<and>
   format (sample_platform 0) big_entity big_world = Inr (Some PNG) \<and>
   width (sample_platform 0) big_entity big_world = Inr (Some 4) \<and>
   height (sample_platform 0) big_entity big_world = Inr (Some 3)"
proof -
  have h: "header_data ''big'' big_world = Inr (''PNG'' @ replicate 49998 (CHR ''x''))"
    by (simp add: header_data_def fetch_data_def big_world_def IMAGE_HEADER_SIZE_def)
  have b: "image_blob_info (sample_platform 0) ''big'' x = Inl (NotImageError ''dimensions unavailable'')" for x
    by (simp add: sample_platform_def)
  show ?thesis
    by (simp add: format_def width_def height_def image_property_def big_entity_def h b
          sample_platform_def sample_image_info_def)
qed

text \<open>
  C7, as amended. With no blob reference, no data and no URL, \<open>create\<close> raises
  \<open>db.Error("No image data")\<close> before it puts anything: the world after the call is
  the world before it, so no entity and no blob is left behind.
\<close>

theorem create_no_image_data:
  "create C P cls None None None filename None mime_type key_name w =
     (Inl (DbError ''No image data''), w)"
  by (simp add: create_def fetch_source_def)

text \<open>
  C7 as stated fails when a URL is given and the fetch yields no content. The body of
  the response is then the empty string, which is not \<open>None\<close>: \<open>create\<close> does not
  raise \<open>db.Error("No image data")\<close>, it puts the placeholder entity and goes on. For
  the URL \<open>http://example.com/empty.png\<close> the MIME type guessed from the filename is
  allowed, reading the format of the empty data raises \<open>NotImageError\<close>, and the
  placeholder stays in the datastore.
\<close>

theorem create_empty_body_counterexample:
  "urlfetch_fetch (sample_platform 0) ''http://example.com/empty.png''
     = Inr \<lparr>content = [], content_type = None\<rparr> \<and>
   fst (create default_config (sample_platform 0) ImageCls None None None None
          (Some ''http://example.com/empty.png'') None None empty_world)
     = Inl (NotImageError ''Empty image data.'') \<and>
   fst (create default_config (sample_platform 0) ImageCls None None None None
          (Some ''http://example.com/empty.png'') None None empty_world)
     \<noteq> Inl (DbError ''No image data'') \<and>
   datastore empty_world (KeyId 1) = None \<and>
   datastore (snd (create default_config (sample_platform 0) ImageCls None None None None
          (Some ''http://example.com/empty.png'') None None empty_world)) (KeyId 1)
     = Some \<lparr>kind = ImageCls, model_key = KeyId 1, blob_key = None,
             source_url = Some ''http://example.com/empty.png''\<rparr> \<and>
   trace (snd (create default_config (sample_platform 0) ImageCls None None None None
          (Some ''http://example.com/empty.png'') None None empty_world))
     = [EvFetch ''http://example.com/empty.png'', EvPut (KeyId 1)]"
  by code_simp

text \<open>
  C8. With a \<open>blob_info\<close> or a \<open>blob_key\<close>, \<open>create\<close> builds the entity with
  that reference (\<open>blob_info\<close> first when both are given) and no source URL, puts it
  once and returns it. The only event is the put, the Blobstore is untouched, and the
  result does not depend on \<open>data\<close>, \<open>filename\<close>, \<open>url\<close> or \<open>mime_type\<close>.
\<close>

theorem create_from_blob_reference:
  assumes "bi \<noteq> None \<or> bk \<noteq> None"
  shows "create C P cls bk bi data filename url mime_type key_name w =
           (let k = (case key_name of Some n \<Rightarrow> KeyName n | None \<Rightarrow> KeyId (next_id w));
                img = \<lparr>kind = cls, model_key = k,
                       blob_key = (case bi of Some i \<Rightarrow> Some i | None \<Rightarrow> bk),
                       source_url = None\<rparr>
            in (Inr img,
                w\<lparr>datastore := (datastore w)(k \<mapsto> img),
                  next_id := (case key_name of Some n \<Rightarrow> next_id w | None \<Rightarrow> next_id w + 1),
                  trace := trace w @ [EvPut k]\<rparr>)) \<and>
         create C P cls bk bi data filename url mime_type key_name w =
           create C P cls bk bi None None None None key_name w"
  using create_with_reference[OF assms, of C P cls data filename url mime_type key_name w]
    create_with_reference[OF assms, of C P cls None None None None key_name w]
  by simp

theorem create_from_blob_reference_witness:
  "create default_config (sample_platform 0) NdbImageCls (Some ''b7'') None (Some ''zzz'')
      (Some ''a.txt'') (Some ''http://example.com/a/cat.png'') (Some ''text/plain'') None empty_world
     = (Inr \<lparr>kind = NdbImageCls, model_key = KeyId 1, blob_key = Some ''b7'', source_url = None\<rparr>,
        empty_world\<lparr>datastore := (datastore empty_world)(KeyId 1 \<mapsto>
                       \<lparr>kind = NdbImageCls, model_key = KeyId 1, blob_key = Some ''b7'', source_url = None\<rparr>),
                     next_id := 2,
                     trace := [EvPut (KeyId 1)]\<rparr>)"
proof -
  have h: "(None :: blob_key option) \<noteq> None \<or> Some ''b7'' \<noteq> None" by simp
  show ?thesis
    using create_from_blob_reference[OF h, of default_config "sample_platform 0" NdbImageCls
        "Some ''zzz''" "Some ''a.txt''" "Some ''http://example.com/a/cat.png''" "Some ''text/plain''"
        None empty_world]
    by (simp add: Let_def empty_world_def)
qed

text \<open>
  C9. The cache key is built from the entity's key, the size and the crop flag;
  \<open>secure_url\<close> is no argument of \<open>cache_key\<close>. So a call with
  \<open>secure_url=True\<close>, made while the entry stored by a call with
  \<open>secure_url=False\<close> for the same size and crop flag is live, returns that URL and
  leaves the world as it is.
\<close>

theorem serving_url_cache_ignores_secure_url:
  assumes "blob_key self \<noteq> None"
    and "get_serving_url C P self sz crop (Some False) w = (Some u, w1)"
    and "cache_live P self sz crop (later d w1)"
  shows "get_serving_url C P self sz crop (Some True) (later d w1) = (Some u, later d w1)"
  using assms by (rule cached_url_returned)

theorem serving_url_cache_ignores_secure_url_witness:
  "get_serving_url default_config (sample_platform 2) sample_entity (Some 32) False (Some True)
     (later 100 (snd (get_serving_url default_config (sample_platform 2) sample_entity (Some 32)
                        False (Some False) empty_world)))
   = (Some ''http://images/b7'',
      later 100 (snd (get_serving_url default_config (sample_platform 2) sample_entity (Some 32)
                        False (Some False) empty_world)))"
proof -
  have b: "blob_key sample_entity \<noteq> None"
    by (simp add: sample_entity_def)
  have t: "SERVING_URL_TIMEOUT default_config = 0 \<or> (100::nat) < SERVING_URL_TIMEOUT default_config"
    by (simp add: default_config_def)
  have live: "cache_live (sample_platform 2) sample_entity (Some 32) False
                (later 100 (snd (get_serving_url default_config (sample_platform 2) sample_entity
                   (Some 32) False (Some False) empty_world)))"
    by (rule cache_live_after_lookup[OF b sample_miss sample_first_call t])
  show ?thesis
    by (rule serving_url_cache_ignores_secure_url[OF b sample_first_call live])
qed

text \<open>
  C10. When \<open>create\<close> has data, the resolved MIME type is allowed, and reading the
  format raises \<open>NotImageError\<close>, that exception leaves \<open>create\<close>. The world it
  leaves is the one right after the placeholder was put: the datastore holds the
  placeholder, which has no blob reference, and the Blobstore is as before the call.
\<close>

theorem create_not_image_leaves_placeholder:
  assumes src: "fetch_source P data (map_option encode_ascii_ignore filename)
                  (map_option encode_ascii_ignore url) mime_type w = (Inr (Some d, fn, mt), w1)"
    and ent: "create_new_entity cls
                ((no_kwargs key_name)\<lparr>kw_source_url := map_option encode_ascii_ignore url\<rparr>) w1
              = (img, w2)"
    and ok: "resolve_mime_type P mt (resolve_filename P fn img) \<in> set (VALID_MIME_TYPES C)"
    and ni: "image_data_info P d = Inl (NotImageError m)"
  shows "create C P cls None None data filename url mime_type key_name w
           = (Inl (NotImageError m), w2) \<and>
         datastore w2 (model_key img) = Some img \<and> blob_key img = None \<and>
         blobs w2 = blobs w \<and> trace w2 = trace w1 @ [EvPut (model_key img)]"
proof -
  note E = create_new_entity_result[OF ent]
  have nb: "blob_key img = None"
    using E by (cases cls) (simp_all add: no_kwargs_def)
  have res: "create C P cls None None data filename url mime_type key_name w
               = (Inl (NotImageError m), w2)"
    using ok ni by (simp add: create_data_path[OF src] create_from_data_def ent Let_def)
  show ?thesis
    using res E nb fetch_source_world[OF src] by simp
qed

theorem create_not_image_leaves_placeholder_witness:
  "create default_config (sample_platform 0) ImageCls None None (Some ''abc'') (Some ''a.png'') None None None empty_world
     = (Inl (NotImageError ''not an image''),
        put \<lparr>kind = ImageCls, model_key = KeyId 1, blob_key = None, source_url = None\<rparr>
          (empty_world\<lparr>next_id := next_id empty_world + 1\<rparr>)) \<and>
   datastore (put \<lparr>kind = ImageCls, model_key = KeyId 1, blob_key = None, source_url = None\<rparr>
          (empty_world\<lparr>next_id := next_id empty_world + 1\<rparr>)) (KeyId 1)
     = Some \<lparr>kind = ImageCls, model_key = KeyId 1, blob_key = None, source_url = None\<rparr>"
proof -
  let ?img = "\<lparr>kind = ImageCls, model_key = KeyId 1, blob_key = None, source_url = None\<rparr>"
  have src: "fetch_source (sample_platform 0) (Some ''abc'') (map_option encode_ascii_ignore (Some ''a.png''))
               (map_option encode_ascii_ignore None) None empty_world
             = (Inr (Some ''abc'', Some ''a.png'', None), empty_world)"
    by (simp add: fetch_source_def encode_ascii_ignore_def)
  have ent: "create_new_entity ImageCls
               ((no_kwargs None)\<lparr>kw_source_url := map_option encode_ascii_ignore None\<rparr>) empty_world
             = (?img, put ?img (empty_world\<lparr>next_id := next_id empty_world + 1\<rparr>))"
    by (simp add: create_new_entity_def construct_def no_kwargs_def empty_world_def Let_def)
  have ok: "resolve_mime_type (sample_platform 0) None (resolve_filename (sample_platform 0) (Some ''a.png'') ?img)
               \<in> set (VALID_MIME_TYPES default_config)"
    by (simp add: resolve_mime_type_def resolve_filename_def py_or_def sample_simps)
  have ni: "image_data_info (sample_platform 0) ''abc'' = Inl (NotImageError ''not an image'')"
    by (simp add: sample_simps)
  show ?thesis
    using create_not_image_leaves_placeholder[OF src ent ok ni] by simp
qed

end
